theory Spec2Isabelle
  imports Main
begin

section \<open>Data model\<close>

text \<open>
  The three handlers of the booking lifecycle (\<open>createDirectBooking\<close>, \<open>retryPayment\<close>,
  \<open>stripeWebhook\<close>) are embedded as functions over an explicit world: the MongoDB
  collections they read and write, and a log of the Stripe checkout sessions they create.

  Object ids and session ids are strings. Times are integers, the milliseconds of
  \<open>Date.getTime()\<close>. Stored prices are integers; an amount computed from a price is a
  number or \<open>NaN\<close>. Slot and booking statuses stay strings, as in the source, which only
  ever compares them with literals.
\<close>

type_synonym oid = string
type_synonym metadata = "(string \<times> string) list"

text \<open>A JavaScript number as the handlers compute amounts: an integer, or \<open>NaN\<close>.\<close>

datatype jsnum = Num int | NaN

text \<open>
  The per-sport prices of a slot arrive either as a \<open>Map\<close> or as a plain object; either
  way \<open>entries\<close> are the prices stored in it, by sport.
\<close>

datatype prices =
    PriceMap (entries: "(string \<times> int) list")
  | PriceObject (entries: "(string \<times> int) list")

text \<open>
  What a lookup of a sport hands back when it is defined: a stored price, or, from a plain
  object, a member inherited from \<open>Object.prototype\<close> (a function or an object).
\<close>

datatype price_value = Price int | Inherited

record slot =
  slot_id :: oid
  slot_startTime :: int
  slot_endTime :: int
  slot_status :: string
  bookedForSport :: "string option"
  slot_prices :: prices

record timeslot_doc =
  ts_id :: oid
  ts_subVenue :: oid
  ts_date :: string
  slots :: "slot list"

record booking =
  b_id :: oid
  b_user :: oid
  b_venueId :: "oid option"
  b_subVenueId :: "oid option"
  b_sport :: "string option"
  b_coordinates :: "int list"
  b_startTime :: int
  b_endTime :: int
  b_timeSlotDocId :: "oid option"
  b_slotId :: "oid option"
  b_amount :: jsnum
  b_currency :: string
  b_stripeSessionId :: string
  b_stripePaymentIntentId :: "string option"
  b_status :: string
  b_gameId :: "oid option"

record game =
  g_id :: oid
  g_status :: string
  g_bookingStatus :: string

record subvenue =
  sv_id :: oid
  sv_venue :: oid

record venue =
  v_id :: oid
  v_coordinates :: "int list"

text \<open>What is handed to \<open>stripe.checkout.sessions.create\<close>, and what it returns.\<close>

record session_params =
  sp_expires_at :: "int option"
  sp_currency :: string
  sp_unit_amount :: jsnum
  sp_product_name :: string
  sp_metadata :: metadata
  sp_success_url :: string
  sp_cancel_url :: string

record session =
  session_id :: string
  session_url :: string

record world =
  timeslots :: "timeslot_doc list"
  bookings :: "booking list"
  games :: "game list"
  subvenues :: "subvenue list"
  venues :: "venue list"
  sessions :: "(session_params \<times> session) list"

text \<open>
  An error is either an \<open>AppError\<close> of the application (message, HTTP status) or an
  error thrown by a collaborator (the payment processor, \<open>Booking.create\<close>).
\<close>

datatype error = AppError string nat | Thrown string

datatype payload =
    Checkout string oid
  | Demo oid string "string option" int int jsnum
  | RetryUrl string oid

type_synonym response = "nat \<times> payload"

text \<open>A verified Stripe event: its type, its id, and the fields read of \<open>event.data.object\<close>.\<close>

record event =
  ev_type :: string
  ev_id :: string
  obj_id :: string
  obj_payment_intent :: "string option"
  obj_metadata :: "metadata option"

text \<open>
  The configuration and the collaborators of one request. \<open>stripeKeySet\<close> says that
  \<open>getStripe()\<close> returns a client (one is cached, or \<open>STRIPE_SECRET_KEY\<close> is set);
  \<open>newObjectId\<close> is the id \<open>new mongoose.Types.ObjectId()\<close> generates; \<open>toISODate\<close>
  is \<open>d.toISOString().split('T')[0]\<close>; \<open>stripeCreate\<close>, \<open>bookingCreate\<close> and
  \<open>constructEvent\<close> are the outcomes of the calls of these names, \<open>Inl\<close> or \<open>Some\<close>
  when they throw. Reads and updates of the collections themselves do not fail in this model.
\<close>

record env =
  now :: int
  bypassStripe :: bool
  stripeKeySet :: bool
  frontendUrl :: string
  webhookSecret :: string
  newObjectId :: oid
  toISODate :: "int \<Rightarrow> string"
  stripeCreate :: "session_params \<Rightarrow> error + session"
  bookingCreate :: "booking \<Rightarrow> error option"
  constructEvent :: "string \<Rightarrow> string \<Rightarrow> string \<Rightarrow> string + event"

section \<open>The collections\<close>

text \<open>
  \<open>update_first P f\<close> rewrites the first element that satisfies \<open>P\<close>: the document a
  \<open>findOne\<close> returned and \<open>save()\<close> writes back, or the document a
  \<open>findOneAndUpdate\<close> matches.
\<close>

fun update_first :: "('a \<Rightarrow> bool) \<Rightarrow> ('a \<Rightarrow> 'a) \<Rightarrow> 'a list \<Rightarrow> 'a list" where
  "update_first P f [] = []"
| "update_first P f (x # xs) = (if P x then f x # xs else x # update_first P f xs)"

definition findById :: "timeslot_doc list \<Rightarrow> oid \<Rightarrow> timeslot_doc option" where
  "findById docs i = find (\<lambda>d. ts_id d = i) docs"

text \<open>\<open>DocumentArray.id\<close>: the first slot with this \<open>_id\<close>.\<close>

definition slotById :: "slot list \<Rightarrow> oid \<Rightarrow> slot option" where
  "slotById ss i = find (\<lambda>s. slot_id s = i) ss"

text \<open>How a request observes a slot: \<open>findById\<close> of the document, then \<open>.id\<close>.\<close>

definition slotAt :: "timeslot_doc list \<Rightarrow> oid \<Rightarrow> oid \<Rightarrow> slot option" where
  "slotAt docs d s = (case findById docs d of None \<Rightarrow> None | Some doc \<Rightarrow> slotById (slots doc) s)"

text \<open>
  The filter of the conditional update,
  \<^verbatim>\<open>{ _id: d, "slots._id": s, "slots.status": "available" }\<close>.
  The two conditions on \<open>slots\<close> are separate dotted paths, not one \<open>$elemMatch\<close>:
  MongoDB matches each against the array on its own, so the document matches when some
  slot has the id and some slot, the same or another, is available.
\<close>

definition lockFilter :: "oid \<Rightarrow> oid \<Rightarrow> timeslot_doc \<Rightarrow> bool" where
  "lockFilter d s doc =
     (ts_id doc = d \<and> list_ex (\<lambda>x. slot_id x = s) (slots doc)
      \<and> list_ex (\<lambda>x. slot_status x = ''available'') (slots doc))"

text \<open>The filter of the unconditional update, \<^verbatim>\<open>{ _id: d, "slots._id": s }\<close>.\<close>

definition unlockFilter :: "oid \<Rightarrow> oid \<Rightarrow> timeslot_doc \<Rightarrow> bool" where
  "unlockFilter d s doc = (ts_id doc = d \<and> list_ex (\<lambda>x. slot_id x = s) (slots doc))"

text \<open>
  \<^verbatim>\<open>$set: { "slots.$.status": st, "slots.$.bookedForSport": sp }\<close>. The positional
  operator \<open>$\<close> stands for the first element that the array condition of the filter
  matches. \<open>setSlotWhere P\<close> is the update for an array condition \<open>P\<close>.
\<close>

definition setSlotWhere ::
  "(slot \<Rightarrow> bool) \<Rightarrow> string \<Rightarrow> string option \<Rightarrow> timeslot_doc \<Rightarrow> timeslot_doc" where
  "setSlotWhere P st sp doc =
     doc\<lparr>slots := update_first P (\<lambda>x. x\<lparr>slot_status := st, bookedForSport := sp\<rparr>) (slots doc)\<rparr>"

text \<open>
  Under the unconditional filter the only array condition is the one on \<open>slots._id\<close>:
  the position is the first slot with that id.
\<close>

definition setSlot :: "oid \<Rightarrow> string \<Rightarrow> string option \<Rightarrow> timeslot_doc \<Rightarrow> timeslot_doc" where
  "setSlot s st sp doc = setSlotWhere (\<lambda>x. slot_id x = s) st sp doc"

text \<open>
  Under the filter of the conditional update there are two array conditions, each matched
  on its own, and the position is the one left by the last of them, the condition on
  \<open>slots.status\<close>: the first available slot of the document, whichever id was asked for.
\<close>

definition setAvailableSlot :: "string \<Rightarrow> string option \<Rightarrow> timeslot_doc \<Rightarrow> timeslot_doc" where
  "setAvailableSlot st sp doc = setSlotWhere (\<lambda>x. slot_status x = ''available'') st sp doc"

text \<open>
  \<open>Model.findOneAndUpdate\<close>: the first matching document is updated; the result is the
  collection and the matched document, \<open>None\<close> (\<open>null\<close>) when nothing matched.
\<close>

definition findOneAndUpdate ::
  "('a \<Rightarrow> bool) \<Rightarrow> ('a \<Rightarrow> 'a) \<Rightarrow> 'a list \<Rightarrow> 'a list \<times> 'a option" where
  "findOneAndUpdate flt upd docs = (update_first flt upd docs, map_option upd (find flt docs))"

definition lockSlot :: "oid \<Rightarrow> oid \<Rightarrow> string option \<Rightarrow> timeslot_doc list
    \<Rightarrow> timeslot_doc list \<times> timeslot_doc option" where
  "lockSlot d s sport docs =
     findOneAndUpdate (lockFilter d s) (setAvailableSlot ''booked'' sport) docs"

definition unlockSlot :: "oid \<Rightarrow> oid \<Rightarrow> timeslot_doc list \<Rightarrow> timeslot_doc list" where
  "unlockSlot d s docs = fst (findOneAndUpdate (unlockFilter d s) (setSlot s ''available'' None) docs)"

text \<open>Truthiness of an optional string, as \<open>if (x)\<close> tests it.\<close>

definition truthy :: "string option \<Rightarrow> bool" where
  "truthy v = (case v of None \<Rightarrow> False | Some s \<Rightarrow> (if s = [] then False else True))"

section \<open>createDirectBooking\<close>

text \<open>The request body and the authenticated user. An absent field is the empty string.\<close>

record direct_req =
  r_subVenueId :: string
  r_timeSlotDocId :: string
  r_slotId :: string
  r_sport :: string
  r_userId :: oid

record validated =
  vd_slot :: slot
  vd_priceInPaise :: jsnum
  vd_venue :: venue

text \<open>The names every plain object inherits from \<open>Object.prototype\<close>.\<close>

definition objectPrototypeMembers :: "string list" where
  "objectPrototypeMembers =
     [''constructor'', ''hasOwnProperty'', ''isPrototypeOf'', ''propertyIsEnumerable'',
      ''toLocaleString'', ''toString'', ''valueOf'', ''__proto__'', ''__defineGetter__'',
      ''__defineSetter__'', ''__lookupGetter__'', ''__lookupSetter__'']"

text \<open>
  \<open>prices.get(sport)\<close> when \<open>prices\<close> is a \<open>Map\<close>: only what the map stores.
  \<open>prices[sport]\<close> otherwise: the object's own property, else an inherited member.
  \<open>None\<close> is \<open>undefined\<close>.
\<close>

definition lookupPrice :: "prices \<Rightarrow> string \<Rightarrow> price_value option" where
  "lookupPrice p sport =
     (case p of
        PriceMap m \<Rightarrow> map_option Price (map_of m sport)
      | PriceObject obj \<Rightarrow>
         (case map_of obj sport of
            Some v \<Rightarrow> Some (Price v)
          | None \<Rightarrow> if sport \<in> set objectPrototypeMembers then Some Inherited else None))"

text \<open>\<open>price * 100\<close>: a member that is not a number gives \<open>NaN\<close>.\<close>

definition priceInPaise :: "price_value \<Rightarrow> jsnum" where
  "priceInPaise v = (case v of Price p \<Rightarrow> Num (p * 100) | Inherited \<Rightarrow> NaN)"

text \<open>\<open>booking.amount / 100\<close>, of an amount that was computed as \<open>price * 100\<close>.\<close>

definition amountInRupees :: "jsnum \<Rightarrow> jsnum" where
  "amountInRupees a = (case a of Num n \<Rightarrow> Num (n div 100) | NaN \<Rightarrow> NaN)"

text \<open>Everything before the lock: the reads and the checks of the request.\<close>

definition validateDirect :: "env \<Rightarrow> world \<Rightarrow> direct_req \<Rightarrow> error + validated" where
  "validateDirect e w r =
     (if r_subVenueId r = [] \<or> r_timeSlotDocId r = [] \<or> r_slotId r = [] \<or> r_sport r = []
      then Inl (AppError ''Missing required fields'' 400)
      else case findById (timeslots w) (r_timeSlotDocId r) of
        None \<Rightarrow> Inl (AppError ''TimeSlot document not found'' 404)
      | Some ts \<Rightarrow>
         (case slotById (slots ts) (r_slotId r) of
            None \<Rightarrow> Inl (AppError ''Slot not found'' 404)
          | Some sl \<Rightarrow>
             if slot_status sl = ''available'' then
               if slot_startTime sl < now e
               then Inl (AppError ''Cannot book a slot in the past'' 400)
               else (case lookupPrice (slot_prices sl) (r_sport r) of
                  None \<Rightarrow> Inl (AppError ''Sport price not available for this slot'' 400)
                | Some price \<Rightarrow>
                   if price = Price 0
                   then Inl (AppError ''Sport price not available for this slot'' 400)
                   else (case find (\<lambda>x. sv_id x = r_subVenueId r) (subvenues w) of
                      None \<Rightarrow> Inl (AppError ''SubVenue not found'' 404)
                    | Some sv \<Rightarrow>
                       (case find (\<lambda>x. v_id x = sv_venue sv) (venues w) of
                          None \<Rightarrow> Inl (AppError ''Venue not found'' 404)
                        | Some vn \<Rightarrow>
                           Inr \<lparr>vd_slot = sl, vd_priceInPaise = priceInPaise price, vd_venue = vn\<rparr>)))
             else Inl (AppError ''Slot is no longer available'' 400)))"

definition directSessionParams :: "env \<Rightarrow> direct_req \<Rightarrow> oid \<Rightarrow> jsnum \<Rightarrow> session_params" where
  "directSessionParams e r bookingId amount =
     \<lparr>sp_expires_at = Some (now e div 1000 + 30 * 60),
      sp_currency = ''inr'',
      sp_unit_amount = amount,
      sp_product_name = ''Direct Venue Booking - '' @ r_sport r,
      sp_metadata = [(''type'', ''direct''), (''userId'', r_userId r), (''bookingId'', bookingId),
                     (''timeSlotDocId'', r_timeSlotDocId r), (''slotId'', r_slotId r)],
      sp_success_url = frontendUrl e @ ''/payment-success?session_id={CHECKOUT_SESSION_ID}'',
      sp_cancel_url = frontendUrl e @ ''/payment-cancel''\<rparr>"

definition directBooking ::
  "direct_req \<Rightarrow> validated \<Rightarrow> oid \<Rightarrow> string \<Rightarrow> string option \<Rightarrow> string \<Rightarrow> booking" where
  "directBooking r v bookingId sid pid st =
     \<lparr>b_id = bookingId, b_user = r_userId r, b_venueId = Some (v_id (vd_venue v)),
      b_subVenueId = Some (r_subVenueId r), b_sport = Some (r_sport r),
      b_coordinates = v_coordinates (vd_venue v),
      b_startTime = slot_startTime (vd_slot v), b_endTime = slot_endTime (vd_slot v),
      b_timeSlotDocId = Some (r_timeSlotDocId r), b_slotId = Some (r_slotId r),
      b_amount = vd_priceInPaise v, b_currency = ''inr'',
      b_stripeSessionId = sid, b_stripePaymentIntentId = pid, b_status = st,
      b_gameId = None\<rparr>"

text \<open>\<open>Booking.create\<close> and the response, the end of the \<open>try\<close> block.\<close>

definition persistBooking ::
  "env \<Rightarrow> world \<Rightarrow> booking \<Rightarrow> session option \<Rightarrow> world \<times> (error + response)" where
  "persistBooking e w b sess =
     (case bookingCreate e b of
        Some err \<Rightarrow> (w, Inl err)
      | None \<Rightarrow>
         (w\<lparr>bookings := bookings w @ [b]\<rparr>,
          Inr (201,
            case sess of
              None \<Rightarrow> Demo (b_id b) (b_status b) (b_sport b) (b_startTime b) (b_endTime b)
                        (amountInRupees (b_amount b))
            | Some s \<Rightarrow> Checkout (session_url s) (b_id b))))"

text \<open>The \<open>try\<close> block: the payment session (skipped in demo mode), then the booking.\<close>

definition tryBook :: "env \<Rightarrow> world \<Rightarrow> direct_req \<Rightarrow> validated \<Rightarrow> world \<times> (error + response)" where
  "tryBook e w r v =
     (let bookingId = newObjectId e in
      if bypassStripe e then
        persistBooking e w
          (directBooking r v bookingId (''demo_session_'' @ bookingId)
             (Some (''demo_payment_'' @ bookingId)) ''Paid'') None
      else if stripeKeySet e then
        (case stripeCreate e (directSessionParams e r bookingId (vd_priceInPaise v)) of
           Inl err \<Rightarrow> (w, Inl err)
         | Inr s \<Rightarrow>
            persistBooking e
              (w\<lparr>sessions := sessions w
                   @ [(directSessionParams e r bookingId (vd_priceInPaise v), s)]\<rparr>)
              (directBooking r v bookingId (session_id s) None ''Pending'') (Some s))
      else (w, Inl (AppError ''STRIPE_SECRET_KEY is not set in environment variables'' 500)))"

text \<open>The conditional lock, the \<open>try\<close> block, and the \<open>catch\<close> that releases the slot.\<close>

definition lockAndBook :: "env \<Rightarrow> world \<Rightarrow> direct_req \<Rightarrow> validated \<Rightarrow> world \<times> (error + response)" where
  "lockAndBook e w r v =
     (case lockSlot (r_timeSlotDocId r) (r_slotId r) (Some (r_sport r)) (timeslots w) of
        (ts', None) \<Rightarrow> (w, Inl (AppError ''Slot is no longer available'' 400))
      | (ts', Some locked) \<Rightarrow>
         (case tryBook e (w\<lparr>timeslots := ts'\<rparr>) r v of
            (w', Inl err) \<Rightarrow>
              (w'\<lparr>timeslots := unlockSlot (r_timeSlotDocId r) (r_slotId r) (timeslots w')\<rparr>, Inl err)
          | (w', Inr resp) \<Rightarrow> (w', Inr resp)))"

definition createDirectBooking :: "env \<Rightarrow> world \<Rightarrow> direct_req \<Rightarrow> world \<times> (error + response)" where
  "createDirectBooking e w r =
     (case validateDirect e w r of
        Inl err \<Rightarrow> (w, Inl err)
      | Inr v \<Rightarrow> lockAndBook e w r v)"

section \<open>retryPayment\<close>

record retry_req =
  q_bookingId :: string
  q_userId :: oid

definition retrySessionParams :: "env \<Rightarrow> booking \<Rightarrow> oid \<Rightarrow> session_params" where
  "retrySessionParams e b userId =
     \<lparr>sp_expires_at = None,
      sp_currency = b_currency b,
      sp_unit_amount = b_amount b,
      sp_product_name =
        ''Booking Retry - '' @ (if truthy (b_sport b) then the (b_sport b) else ''Venue''),
      sp_metadata = [(''type'', ''retry''), (''userId'', userId), (''bookingId'', b_id b)],
      sp_success_url = frontendUrl e @ ''/payment-success?session_id={CHECKOUT_SESSION_ID}'',
      sp_cancel_url = frontendUrl e @ ''/payment-cancel''\<rparr>"

text \<open>
  Re-acquiring the slot. A Failed booking must win the conditional update. A Pending
  booking tries it and, when nothing matched, re-reads the slot and goes on if it is
  booked. The result is the slot collection and the flag \<open>didLock\<close>.
\<close>

definition retryLock ::
  "world \<Rightarrow> booking \<Rightarrow> timeslot_doc \<Rightarrow> slot \<Rightarrow> error + (timeslot_doc list \<times> bool)" where
  "retryLock w b ts sl =
     (if b_status b = ''Failed'' then
        (case lockSlot (ts_id ts) (slot_id sl) (b_sport b) (timeslots w) of
           (ts', None) \<Rightarrow> Inl (AppError ''Slot is no longer available'' 400)
         | (ts', Some locked) \<Rightarrow> Inr (ts', True))
      else if b_status b = ''Pending'' then
        (case lockSlot (ts_id ts) (slot_id sl) (b_sport b) (timeslots w) of
           (ts', Some locked) \<Rightarrow> Inr (ts', True)
         | (ts', None) \<Rightarrow>
            (case findById (timeslots w) (ts_id ts) of
               None \<Rightarrow> Inl (Thrown ''TypeError'')
             | Some cur \<Rightarrow>
                (case slotById (slots cur) (slot_id sl) of
                   None \<Rightarrow> Inl (AppError ''Slot is not available for retry'' 400)
                 | Some cs \<Rightarrow>
                    if slot_status cs = ''booked'' then Inr (timeslots w, False)
                    else Inl (AppError ''Slot is not available for retry'' 400))))
      else Inr (timeslots w, False))"

text \<open>
  The \<open>try\<close> block of the retry: a fresh session, the booking back to Pending under the
  new session id, a linked game back to Full.
\<close>

definition tryRetry :: "env \<Rightarrow> world \<Rightarrow> retry_req \<Rightarrow> booking \<Rightarrow> world \<times> (error + response)" where
  "tryRetry e w q b =
     (if stripeKeySet e then
        (case stripeCreate e (retrySessionParams e b (q_userId q)) of
           Inl err \<Rightarrow> (w, Inl err)
         | Inr s \<Rightarrow>
            (w\<lparr>sessions := sessions w @ [(retrySessionParams e b (q_userId q), s)],
               bookings := update_first (\<lambda>x. b_id x = q_bookingId q \<and> b_user x = q_userId q)
                             (\<lambda>x. x\<lparr>b_stripeSessionId := session_id s, b_status := ''Pending''\<rparr>)
                             (bookings w),
               games := (case b_gameId b of
                           None \<Rightarrow> games w
                         | Some g \<Rightarrow> update_first (\<lambda>x. g_id x = g)
                                      (\<lambda>x. x\<lparr>g_status := ''Full''\<rparr>) (games w))\<rparr>,
             Inr (200, RetryUrl (session_url s) (b_id b))))
      else (w, Inl (AppError ''STRIPE_SECRET_KEY is not set in environment variables'' 500)))"

text \<open>The \<open>try\<close> block with its \<open>catch\<close>: the slot is released only under \<open>didLock\<close>.\<close>

definition retryGuarded ::
  "env \<Rightarrow> world \<Rightarrow> retry_req \<Rightarrow> booking \<Rightarrow> timeslot_doc \<Rightarrow> slot \<Rightarrow> bool
     \<Rightarrow> world \<times> (error + response)" where
  "retryGuarded e w q b ts sl didLock =
     (case tryRetry e w q b of
        (w', Inl err) \<Rightarrow>
          (if didLock
           then w'\<lparr>timeslots := unlockSlot (ts_id ts) (slot_id sl) (timeslots w')\<rparr>
           else w', Inl err)
      | (w', Inr resp) \<Rightarrow> (w', Inr resp))"

definition sameTimes :: "booking \<Rightarrow> slot \<Rightarrow> bool" where
  "sameTimes b s = (slot_startTime s = b_startTime b \<and> slot_endTime s = b_endTime b)"

definition retryPayment :: "env \<Rightarrow> world \<Rightarrow> retry_req \<Rightarrow> world \<times> (error + response)" where
  "retryPayment e w q =
     (if q_bookingId q = [] then (w, Inl (AppError ''Booking ID is required'' 400))
      else case find (\<lambda>x. b_id x = q_bookingId q \<and> b_user x = q_userId q) (bookings w) of
        None \<Rightarrow> (w, Inl (AppError ''Booking not found'' 404))
      | Some b \<Rightarrow>
         if b_status b = ''Paid'' then (w, Inl (AppError ''Booking is already paid'' 400))
         else if b_startTime b < now e
         then (w, Inl (AppError ''Cannot retry payment for a past booking'' 400))
         else if b_status b = ''Failed'' \<or> b_status b = ''Pending'' then
           (if truthy (b_subVenueId b) then
              (case find (\<lambda>d. ts_subVenue d = the (b_subVenueId b)
                              \<and> ts_date d = toISODate e (b_startTime b)) (timeslots w) of
                 None \<Rightarrow> (w, Inl (AppError ''TimeSlot not found'' 404))
               | Some ts \<Rightarrow>
                  (case find (sameTimes b) (slots ts) of
                     None \<Rightarrow> (w, Inl (AppError ''Slot not found'' 404))
                   | Some sl \<Rightarrow>
                      (case retryLock w b ts sl of
                         Inl err \<Rightarrow> (w, Inl err)
                       | Inr (ts', didLock) \<Rightarrow>
                          retryGuarded e (w\<lparr>timeslots := ts'\<rparr>) q b ts sl didLock)))
            else (w, Inl (AppError ''Invalid booking: missing subVenueId'' 400)))
         else (w, Inl (AppError ''Invalid booking status for retry'' 400)))"

section \<open>stripeWebhook\<close>

record webhook_req =
  wh_body :: string
  wh_signature :: string

definition metaGet :: "metadata option \<Rightarrow> string \<Rightarrow> string option" where
  "metaGet m k = (case m of None \<Rightarrow> None | Some kv \<Rightarrow> map_of kv k)"

text \<open>\<open>checkout.session.completed\<close>: the booking of the session becomes Paid.\<close>

definition onCompleted :: "world \<Rightarrow> event \<Rightarrow> world" where
  "onCompleted w ev =
     (case find (\<lambda>x. b_stripeSessionId x = obj_id ev) (bookings w) of
        None \<Rightarrow> w
      | Some b \<Rightarrow>
         w\<lparr>bookings := update_first (\<lambda>x. b_stripeSessionId x = obj_id ev)
                          (\<lambda>x. x\<lparr>b_status := ''Paid'',
                                 b_stripePaymentIntentId := obj_payment_intent ev\<rparr>) (bookings w),
           games := (if metaGet (obj_metadata ev) ''type'' = Some ''game''
                        \<and> truthy (metaGet (obj_metadata ev) ''gameId'')
                     then update_first (\<lambda>x. g_id x = the (metaGet (obj_metadata ev) ''gameId''))
                            (\<lambda>x. x\<lparr>g_bookingStatus := ''Booked''\<rparr>) (games w)
                     else games w)\<rparr>)"

text \<open>
  \<open>checkout.session.expired\<close>, first half: the booking of the session becomes Failed and
  the game the metadata names goes back to Open.
\<close>

definition expireBooking :: "world \<Rightarrow> event \<Rightarrow> world" where
  "expireBooking w ev =
     (case find (\<lambda>x. b_stripeSessionId x = obj_id ev) (bookings w) of
        None \<Rightarrow> w
      | Some b \<Rightarrow>
         w\<lparr>bookings := update_first (\<lambda>x. b_stripeSessionId x = obj_id ev)
                          (\<lambda>x. x\<lparr>b_status := ''Failed''\<rparr>) (bookings w),
           games := (if truthy (metaGet (obj_metadata ev) ''gameId'')
                     then update_first (\<lambda>x. g_id x = the (metaGet (obj_metadata ev) ''gameId''))
                            (\<lambda>x. x\<lparr>g_status := ''Open''\<rparr>) (games w)
                     else games w)\<rparr>)"

text \<open>
  The fallback release: the document of the booking's sub-venue and date, and in it the
  first slot with the booking's start and end time.
\<close>

definition fallbackRelease :: "env \<Rightarrow> booking \<Rightarrow> timeslot_doc list \<Rightarrow> timeslot_doc list" where
  "fallbackRelease e b docs =
     update_first (\<lambda>d. ts_subVenue d = the (b_subVenueId b) \<and> ts_date d = toISODate e (b_startTime b))
       (\<lambda>d. d\<lparr>slots := update_first (sameTimes b)
                          (\<lambda>x. x\<lparr>slot_status := ''available'', bookedForSport := None\<rparr>) (slots d)\<rparr>)
       docs"

text \<open>
  \<open>checkout.session.expired\<close>, second half: the slot is released through the metadata
  when it names both ids, else through the booking that was found.
\<close>

definition releaseExpired :: "env \<Rightarrow> world \<Rightarrow> event \<Rightarrow> booking option \<Rightarrow> world" where
  "releaseExpired e w ev found =
     (if truthy (metaGet (obj_metadata ev) ''timeSlotDocId'')
         \<and> truthy (metaGet (obj_metadata ev) ''slotId'')
      then w\<lparr>timeslots := unlockSlot (the (metaGet (obj_metadata ev) ''timeSlotDocId''))
                             (the (metaGet (obj_metadata ev) ''slotId'')) (timeslots w)\<rparr>
      else case found of
        None \<Rightarrow> w
      | Some b \<Rightarrow>
         if truthy (b_subVenueId b)
         then w\<lparr>timeslots := fallbackRelease e b (timeslots w)\<rparr>
         else w)"

definition onExpired :: "env \<Rightarrow> world \<Rightarrow> event \<Rightarrow> world" where
  "onExpired e w ev =
     releaseExpired e (expireBooking w ev) ev
       (find (\<lambda>x. b_stripeSessionId x = obj_id ev) (bookings w))"

definition handleEvent :: "env \<Rightarrow> world \<Rightarrow> event \<Rightarrow> world" where
  "handleEvent e w ev =
     (if ev_type ev = ''checkout.session.completed'' then onCompleted w ev
      else if ev_type ev = ''checkout.session.expired'' then onExpired e w ev
      else w)"

text \<open>
  The handler: the event is what \<open>constructEvent\<close> returns for the raw body, the
  signature header and the webhook secret; when that throws the answer is 400.
\<close>

definition stripeWebhook :: "env \<Rightarrow> world \<Rightarrow> webhook_req \<Rightarrow> world \<times> nat \<times> string" where
  "stripeWebhook e w rq =
     (case constructEvent e (wh_body rq) (wh_signature rq) (webhookSecret e) of
        Inl msg \<Rightarrow> (w, 400, ''Webhook Error: '' @ msg)
      | Inr ev \<Rightarrow> (handleEvent e w ev, 200, ''OK''))"

section \<open>Sample data\<close>

text \<open>
  One time-slot document with two slots, a sub-venue with its venue, and a request for the
  first slot. The theorems below are instantiated on them. All sample times lie within the
  first two days of the epoch, where \<open>firstDayISODate\<close> is the date \<open>toISOString\<close>
  prints.
\<close>

definition firstDayISODate :: "int \<Rightarrow> string" where
  "firstDayISODate t = (if 0 \<le> t \<and> t < 86400000 then ''1970-01-01'' else ''1970-01-02'')"

definition slotA :: slot where
  "slotA = \<lparr>slot_id = ''s1'', slot_startTime = 5000, slot_endTime = 6000,
            slot_status = ''available'', bookedForSport = None,
            slot_prices = PriceObject [(''Cricket'', 1000)]\<rparr>"

definition slotB :: slot where
  "slotB = \<lparr>slot_id = ''s2'', slot_startTime = 6000, slot_endTime = 7000,
            slot_status = ''available'', bookedForSport = None,
            slot_prices = PriceMap [(''Cricket'', 1200)]\<rparr>"

definition world0 :: world where
  "world0 = \<lparr>timeslots = [\<lparr>ts_id = ''d1'', ts_subVenue = ''sv1'', ts_date = ''1970-01-01'',
                            slots = [slotA, slotB]\<rparr>],
             bookings = [], games = [],
             subvenues = [\<lparr>sv_id = ''sv1'', sv_venue = ''v1''\<rparr>],
             venues = [\<lparr>v_id = ''v1'', v_coordinates = [72, 19]\<rparr>], sessions = []\<rparr>"

definition env0 :: env where
  "env0 = \<lparr>now = 1000, bypassStripe = False, stripeKeySet = True, frontendUrl = ''http://f'',
           webhookSecret = ''whsec'', newObjectId = ''bk1'', toISODate = firstDayISODate,
           stripeCreate = (\<lambda>p. Inr \<lparr>session_id = ''cs_1'', session_url = ''http://pay''\<rparr>),
           bookingCreate = (\<lambda>b. None),
           constructEvent = (\<lambda>b s k. Inl ''No signatures found'')\<rparr>"

definition reqA :: direct_req where
  "reqA = \<lparr>r_subVenueId = ''sv1'', r_timeSlotDocId = ''d1'', r_slotId = ''s1'',
           r_sport = ''Cricket'', r_userId = ''uA''\<rparr>"

definition validA :: validated where
  "validA = \<lparr>vd_slot = slotA, vd_priceInPaise = Num 100000,
             vd_venue = \<lparr>v_id = ''v1'', v_coordinates = [72, 19]\<rparr>\<rparr>"

definition bookingA :: booking where
  "bookingA = \<lparr>b_id = ''bk1'', b_user = ''uA'', b_venueId = Some ''v1'', b_subVenueId = Some ''sv1'',
      b_sport = Some ''Cricket'', b_coordinates = [72, 19], b_startTime = 5000, b_endTime = 6000,
      b_timeSlotDocId = Some ''d1'', b_slotId = Some ''s1'', b_amount = Num 100000, b_currency = ''inr'',
      b_stripeSessionId = ''cs_1'', b_stripePaymentIntentId = None, b_status = ''Pending'',
      b_gameId = None\<rparr>"

definition docBooked :: timeslot_doc where
  "docBooked = \<lparr>ts_id = ''d1'', ts_subVenue = ''sv1'', ts_date = ''1970-01-01'',
      slots = [slotA\<lparr>slot_status := ''booked'', bookedForSport := Some ''Cricket''\<rparr>, slotB]\<rparr>"

definition world1 :: world where
  "world1 = world0\<lparr>timeslots := [docBooked], bookings := [bookingA],
      games := [\<lparr>g_id = ''g1'', g_status = ''Full'', g_bookingStatus = ''NotBooked''\<rparr>]\<rparr>"

definition expiredEvent :: event where
  "expiredEvent = \<lparr>ev_type = ''checkout.session.expired'', ev_id = ''evt_1'', obj_id = ''cs_1'',
      obj_payment_intent = None,
      obj_metadata = Some [(''type'', ''game''), (''gameId'', ''g1''),
                           (''timeSlotDocId'', ''d1''), (''slotId'', ''s1'')]\<rparr>"

definition envHook :: "event \<Rightarrow> env" where
  "envHook ev = env0\<lparr>constructEvent :=
      (\<lambda>body sig secret. if sig = ''t=1,v1=good'' then Inr ev else Inl ''No signatures found'')\<rparr>"

definition hookReq :: webhook_req where
  "hookReq = \<lparr>wh_body = ''{}'', wh_signature = ''t=1,v1=good''\<rparr>"

definition paidWorld :: world where
  "paidWorld = world1\<lparr>bookings := [bookingA\<lparr>b_status := ''Paid'',
      b_stripePaymentIntentId := Some ''pi_1''\<rparr>]\<rparr>"

definition retryReq :: retry_req where
  "retryReq = \<lparr>q_bookingId = ''bk1'', q_userId = ''uA''\<rparr>"

definition completedEvent :: event where
  "completedEvent = \<lparr>ev_type = ''checkout.session.completed'', ev_id = ''evt_2'', obj_id = ''cs_1'',
      obj_payment_intent = Some ''pi_1'',
      obj_metadata = Some [(''type'', ''direct''), (''timeSlotDocId'', ''d1''), (''slotId'', ''s1'')]\<rparr>"

definition reqB :: direct_req where
  "reqB = reqA\<lparr>r_userId := ''uB''\<rparr>"

definition envB :: env where
  "envB = env0\<lparr>newObjectId := ''bk2'',
      stripeCreate := (\<lambda>p. Inr \<lparr>session_id = ''cs_2'', session_url = ''http://pay2''\<rparr>)\<rparr>"

definition envFail :: env where
  "envFail = env0\<lparr>stripeCreate := (\<lambda>p. Inl (Thrown ''card network down''))\<rparr>"

definition failedWorld :: world where
  "failedWorld = world0\<lparr>bookings := [bookingA\<lparr>b_status := ''Failed''\<rparr>]\<rparr>"

definition foreignWorld :: world where
  "foreignWorld = world0\<lparr>
      timeslots := [\<lparr>ts_id = ''d1'', ts_subVenue = ''sv1'', ts_date = ''1970-01-01'',
                     slots = [slotA\<lparr>slot_status := ''booked'', bookedForSport := Some ''Tennis''\<rparr>,
                              slotB]\<rparr>],
      bookings := [bookingA\<lparr>b_status := ''Failed''\<rparr>]\<rparr>"

definition reqS2 :: direct_req where
  "reqS2 = reqA\<lparr>r_slotId := ''s2''\<rparr>"

definition freeWorld :: world where
  "freeWorld = world0\<lparr>timeslots :=
      [\<lparr>ts_id = ''d1'', ts_subVenue = ''sv1'', ts_date = ''1970-01-01'',
        slots = [slotA\<lparr>slot_prices := PriceObject [(''Cricket'', 0)]\<rparr>]\<rparr>]\<rparr>"

text \<open>
  A booking made for a game, Failed after a first expiry, and what a retry of it leaves;
  then the expiry of the retry's session, with the metadata the retry gave it.
\<close>

definition gameBooking :: booking where
  "gameBooking = bookingA\<lparr>b_gameId := Some ''g1''\<rparr>"

definition gameWorld :: world where
  "gameWorld = world1\<lparr>bookings := [gameBooking]\<rparr>"

definition gameFailedWorld :: world where
  "gameFailedWorld = world0\<lparr>bookings := [gameBooking\<lparr>b_status := ''Failed''\<rparr>],
      games := [\<lparr>g_id = ''g1'', g_status = ''Open'', g_bookingStatus = ''NotBooked''\<rparr>]\<rparr>"

definition afterRetry :: world where
  "afterRetry = fst (retryPayment env0 gameFailedWorld retryReq)"

definition retryExpired :: event where
  "retryExpired = \<lparr>ev_type = ''checkout.session.expired'', ev_id = ''evt_3'', obj_id = ''cs_1'',
      obj_payment_intent = None,
      obj_metadata = Some [(''type'', ''retry''), (''userId'', ''uA''), (''bookingId'', ''bk1'')]\<rparr>"

lemmas sample_defs = reqS2_def freeWorld_def gameBooking_def gameWorld_def gameFailedWorld_def
  afterRetry_def retryExpired_def firstDayISODate_def slotA_def slotB_def world0_def env0_def reqA_def validA_def bookingA_def
  docBooked_def world1_def expiredEvent_def envHook_def hookReq_def paidWorld_def retryReq_def
  completedEvent_def reqB_def envB_def envFail_def failedWorld_def foreignWorld_def

lemmas handler_defs = createDirectBooking_def validateDirect_def lockAndBook_def tryBook_def
  persistBooking_def directBooking_def directSessionParams_def lookupPrice_def
  objectPrototypeMembers_def priceInPaise_def amountInRupees_def setSlotWhere_def
  setAvailableSlot_def
  retryPayment_def retryLock_def retryGuarded_def tryRetry_def retrySessionParams_def
  sameTimes_def lockSlot_def unlockSlot_def findOneAndUpdate_def lockFilter_def unlockFilter_def
  setSlot_def findById_def slotById_def slotAt_def truthy_def Let_def
  stripeWebhook_def handleEvent_def onExpired_def expireBooking_def releaseExpired_def
  fallbackRelease_def metaGet_def

section \<open>Facts about the collections\<close>

lemma length_update_first [simp]: "length (update_first P f xs) = length xs"
  by (induction xs) auto

lemma find_update_first_same:
  "(\<And>x. P x \<Longrightarrow> P (f x)) \<Longrightarrow> find P (update_first P f xs) = map_option f (find P xs)"
  by (induction xs) auto

lemma find_update_first_sub:
  assumes "find Q xs = Some y" and "\<And>x. P x \<Longrightarrow> Q x" and "\<And>x. Q (f x) = Q x"
  shows "find Q (update_first P f xs) = Some (if P y then f y else y)"
  using assms(1)
proof (induction xs)
  case Nil
  then show ?case by simp
next
  case (Cons x xs)
  show ?case
  proof (cases "Q x")
    case True
    with Cons.prems have "y = x" by simp
    with True show ?thesis by (simp add: assms(3))
  next
    case False
    with assms(2) have "\<not> P x" by blast
    with False Cons show ?thesis by simp
  qed
qed

lemma slotById_setSlot:
  "slotById (slots (setSlot s st sp doc)) s =
     map_option (\<lambda>x. x\<lparr>slot_status := st, bookedForSport := sp\<rparr>) (slotById (slots doc) s)"
  by (simp add: slotById_def setSlot_def setSlotWhere_def find_update_first_same)

lemma list_ex_find: "list_ex P xs = (find P xs \<noteq> None)"
  by (induction xs) auto

lemma ts_id_setSlot [simp]: "ts_id (setSlot s st sp doc) = ts_id doc"
  by (simp add: setSlot_def setSlotWhere_def)

lemma ts_id_setAvailableSlot [simp]: "ts_id (setAvailableSlot st sp doc) = ts_id doc"
  by (simp add: setAvailableSlot_def setSlotWhere_def)




lemma slotAt_unlockSlot:
  assumes "findById docs d = Some doc" and "slotById (slots doc) s = Some sl"
  shows "slotAt (unlockSlot d s docs) d s = Some (sl\<lparr>slot_status := ''available'', bookedForSport := None\<rparr>)"
proof -
  have P: "unlockFilter d s doc"
    using assms by (auto simp: unlockFilter_def findById_def slotById_def list_ex_find find_Some_iff)
  have "findById (unlockSlot d s docs) d = Some (setSlot s ''available'' None doc)"
    unfolding findById_def unlockSlot_def findOneAndUpdate_def fst_conv
    using find_update_first_sub [where Q = "\<lambda>x. ts_id x = d" and P = "unlockFilter d s"
        and f = "setSlot s ''available'' None" and xs = docs and y = doc] assms(1) P
    by (simp add: findById_def unlockFilter_def)
  then show ?thesis
    by (simp add: slotAt_def slotById_setSlot assms(2))
qed


lemma timeslots_persistBooking [simp]: "timeslots (fst (persistBooking e w b s)) = timeslots w"
  by (simp add: persistBooking_def split: option.splits)




section \<open>The conditional lock\<close>

text \<open>
  When the conditional update matches nothing, the request fails with 400 "Slot is no
  longer available", and nothing is written. On a document whose only slot is the
  requested one, a second conditional update after a first finds nothing to match.
\<close>

lemma lock_lost_no_booking:
  "snd (lockSlot (r_timeSlotDocId r) (r_slotId r) (Some (r_sport r)) (timeslots w)) = None
   \<Longrightarrow> lockAndBook e w r v = (w, Inl (AppError ''Slot is no longer available'' 400))"
  by (cases "lockSlot (r_timeSlotDocId r) (r_slotId r) (Some (r_sport r)) (timeslots w)")
    (simp add: lockAndBook_def)

lemma lock_exclusive_single_slot:
  "slots doc = [sl] \<Longrightarrow> slot_id sl = s \<Longrightarrow> ts_id doc = d
   \<Longrightarrow> snd (lockSlot d s sp' (fst (lockSlot d s sp [doc]))) = None"
  by (simp add: lockSlot_def findOneAndUpdate_def lockFilter_def setAvailableSlot_def
      setSlotWhere_def)

text \<open>
  C1. The claim is that of several attempts racing for one slot at most one conditional
  update matches a document. On this code it does not hold once the document has another
  available slot. Here two requests for slot \<open>s1\<close> of document \<open>d1\<close> both pass the
  read-based checks on the same state; the first locks \<open>s1\<close>; the conditional update of
  the second still matches \<open>d1\<close>, because \<open>s1\<close> has the id and \<open>s2\<close> is available; both
  requests are answered 201 and both bookings, for the same slot, are stored.
\<close>

theorem double_lock_race:
  "validateDirect env0 world0 reqA = Inr validA
   \<and> validateDirect envB world0 reqB = Inr validA
   \<and> snd (lockAndBook env0 world0 reqA validA) = Inr (201, Checkout ''http://pay'' ''bk1'')
   \<and> snd (lockSlot ''d1'' ''s1'' (Some ''Cricket'')
            (timeslots (fst (lockAndBook env0 world0 reqA validA)))) \<noteq> None
   \<and> snd (lockAndBook envB (fst (lockAndBook env0 world0 reqA validA)) reqB validA)
       = Inr (201, Checkout ''http://pay2'' ''bk2'')
   \<and> map (\<lambda>b. (b_user b, b_slotId b, b_status b))
        (bookings (fst (lockAndBook envB (fst (lockAndBook env0 world0 reqA validA)) reqB validA)))
       = [(''uA'', Some ''s1'', ''Pending''), (''uB'', Some ''s1'', ''Pending'')]"
  by (simp add: sample_defs handler_defs)

section \<open>Compensation after a failure behind the lock\<close>



section \<open>Facts about the webhook\<close>

lemma timeslots_expireBooking [simp]: "timeslots (expireBooking w ev) = timeslots w"
  by (simp add: expireBooking_def split: option.splits)

lemma nth_update_first_cases:
  "i < length xs \<Longrightarrow> update_first P f xs ! i = xs ! i \<or> update_first P f xs ! i = f (xs ! i)"
proof (induction xs arbitrary: i)
  case Nil
  then show ?case by simp
next
  case (Cons x xs)
  then show ?case by (cases i) auto
qed

lemma nth_update_first_other:
  "i < length xs \<Longrightarrow> \<not> P (xs ! i) \<Longrightarrow> update_first P f xs ! i = xs ! i"
proof (induction xs arbitrary: i)
  case Nil
  then show ?case by simp
next
  case (Cons x xs)
  then show ?case by (cases i) auto
qed

lemma bookings_releaseExpired [simp]: "bookings (releaseExpired e w ev found) = bookings w"
  by (simp add: releaseExpired_def split: option.splits)

lemma games_releaseExpired [simp]: "games (releaseExpired e w ev found) = games w"
  by (simp add: releaseExpired_def split: option.splits)

lemma truthy_Some [simp]: "truthy (Some s) = (s \<noteq> [])"
  by (simp add: truthy_def)

lemma truthy_None [simp]: "truthy None = False"
  by (simp add: truthy_def)

lemma sameTimes_update [simp]:
  "sameTimes b (x\<lparr>slot_status := st, bookedForSport := sp\<rparr>) = sameTimes b x"
  by (simp add: sameTimes_def)

lemma expired_booking_failed:
  assumes "find (\<lambda>x. b_stripeSessionId x = sid) bs = Some b"
  shows "find (\<lambda>x. b_stripeSessionId x = sid)
           (update_first (\<lambda>x. b_stripeSessionId x = sid) (\<lambda>x. x\<lparr>b_status := ''Failed''\<rparr>) bs)
         = Some (b\<lparr>b_status := ''Failed''\<rparr>)"
  using assms by (simp add: find_update_first_same)

lemma game_reopened:
  assumes "find (\<lambda>x. g_id x = g) gs = Some gm"
  shows "find (\<lambda>x. g_id x = g) (update_first (\<lambda>x. g_id x = g) (\<lambda>x. x\<lparr>g_status := ''Open''\<rparr>) gs)
         = Some (gm\<lparr>g_status := ''Open''\<rparr>)"
  using assms by (simp add: find_update_first_same)

lemma fallbackRelease_slot:
  assumes "b_subVenueId b = Some sv"
    and "find (\<lambda>d. ts_subVenue d = sv \<and> ts_date d = toISODate e (b_startTime b)) docs = Some doc"
    and "find (sameTimes b) (slots doc) = Some sl"
  shows "\<exists>doc'. find (\<lambda>d. ts_subVenue d = sv \<and> ts_date d = toISODate e (b_startTime b))
                   (fallbackRelease e b docs) = Some doc'
           \<and> find (sameTimes b) (slots doc')
               = Some (sl\<lparr>slot_status := ''available'', bookedForSport := None\<rparr>)"
  using assms
  by (simp add: fallbackRelease_def find_update_first_same)

lemma bookings_onCompleted_nth:
  assumes "i < length (bookings w)" and "b_status (bookings w ! i) = ''Paid''"
  shows "length (bookings (onCompleted w ev)) = length (bookings w)
    \<and> b_status (bookings (onCompleted w ev) ! i) = ''Paid''"
proof (cases "find (\<lambda>x. b_stripeSessionId x = obj_id ev) (bookings w)")
  case None
  then show ?thesis using assms by (simp add: onCompleted_def)
next
  case (Some b)
  let ?f = "\<lambda>x. x\<lparr>b_status := ''Paid'', b_stripePaymentIntentId := obj_payment_intent ev\<rparr>"
  have "update_first (\<lambda>x. b_stripeSessionId x = obj_id ev) ?f (bookings w) ! i = bookings w ! i
      \<or> update_first (\<lambda>x. b_stripeSessionId x = obj_id ev) ?f (bookings w) ! i = ?f (bookings w ! i)"
    using nth_update_first_cases [OF assms(1)] .
  then show ?thesis using assms Some by (auto simp: onCompleted_def)
qed

lemma bookings_onExpired_nth:
  assumes "i < length (bookings w)" and "b_stripeSessionId (bookings w ! i) \<noteq> obj_id ev"
  shows "length (bookings (onExpired e w ev)) = length (bookings w)
    \<and> bookings (onExpired e w ev) ! i = bookings w ! i"
  using assms
  by (simp add: onExpired_def expireBooking_def nth_update_first_other split: option.splits)

section \<open>The webhook\<close>

text \<open>
  C9. \<open>stripeWebhook\<close> takes its event from \<open>constructEvent\<close>, the check of the
  signature against the webhook secret. When the check fails the handler answers 400 with
  the message of the failure and the world is what it was: no booking, slot or game is
  read or written. Only an event the check returned reaches \<open>handleEvent\<close>.
\<close>

theorem webhook_signature_gate:
  "(\<forall>msg. constructEvent e (wh_body rq) (wh_signature rq) (webhookSecret e) = Inl msg
       \<longrightarrow> stripeWebhook e w rq = (w, 400, ''Webhook Error: '' @ msg))
   \<and> (\<forall>ev. constructEvent e (wh_body rq) (wh_signature rq) (webhookSecret e) = Inr ev
       \<longrightarrow> fst (stripeWebhook e w rq) = handleEvent e w ev)"
  by (simp add: stripeWebhook_def)

theorem webhook_signature_gate_witness:
  "constructEvent (envHook expiredEvent) (wh_body (hookReq\<lparr>wh_signature := ''t=1,v1=forged''\<rparr>))
      (wh_signature (hookReq\<lparr>wh_signature := ''t=1,v1=forged''\<rparr>)) (webhookSecret (envHook expiredEvent))
     = Inl ''No signatures found''
   \<and> stripeWebhook (envHook expiredEvent) world1 (hookReq\<lparr>wh_signature := ''t=1,v1=forged''\<rparr>)
     = (world1, 400, ''Webhook Error: No signatures found'')"
proof -
  have h: "constructEvent (envHook expiredEvent) (wh_body (hookReq\<lparr>wh_signature := ''t=1,v1=forged''\<rparr>))
      (wh_signature (hookReq\<lparr>wh_signature := ''t=1,v1=forged''\<rparr>)) (webhookSecret (envHook expiredEvent))
     = Inl ''No signatures found''"
    by (simp add: envHook_def env0_def hookReq_def)
  from webhook_signature_gate [of "envHook expiredEvent" "hookReq\<lparr>wh_signature := ''t=1,v1=forged''\<rparr>" world1] h
  show ?thesis by simp
qed

text \<open>
  C5, as stated, fails: the game that is reset is looked up through the \<open>gameId\<close> of the
  event's metadata, never through the booking. Here a retry of a game's booking creates
  session \<open>cs_1\<close> and sets the game Full; the session expires, and the event carries the
  metadata the retry gave the session, which names no game. The booking becomes Failed and
  the game stays Full.
\<close>

theorem expired_linked_game_counterexample:
  "map (\<lambda>ps. (session_id (snd ps), sp_metadata (fst ps))) (sessions afterRetry)
     = [(obj_id retryExpired, the (obj_metadata retryExpired))]
   \<and> map (\<lambda>b. (b_gameId b, b_stripeSessionId b, b_status b)) (bookings afterRetry)
     = [(Some ''g1'', ''cs_1'', ''Pending'')]
   \<and> map (\<lambda>g. (g_id g, g_status g)) (games afterRetry) = [(''g1'', ''Full'')]
   \<and> map (\<lambda>b. (b_gameId b, b_status b))
        (bookings (fst (stripeWebhook (envHook retryExpired) afterRetry hookReq)))
     = [(Some ''g1'', ''Failed'')]
   \<and> map (\<lambda>g. (g_id g, g_status g))
        (games (fst (stripeWebhook (envHook retryExpired) afterRetry hookReq)))
     = [(''g1'', ''Full'')]"
  by (simp add: sample_defs handler_defs)

text \<open>
  C5, amended. After a verified \<open>checkout.session.expired\<close> event: the booking of the
  session, when there is one, is Failed; when there is one and the metadata names a game,
  that game is Open; the slot is released, through the metadata when it names both
  \<open>timeSlotDocId\<close> and \<open>slotId\<close>, and otherwise through the document of the
  booking's sub-venue and date and the slot with the booking's start and end time.
\<close>

theorem expired_event_effects:
  assumes "constructEvent e (wh_body rq) (wh_signature rq) (webhookSecret e) = Inr ev"
    and "ev_type ev = ''checkout.session.expired''"
  shows "(\<forall>b. find (\<lambda>x. b_stripeSessionId x = obj_id ev) (bookings w) = Some b
          \<longrightarrow> find (\<lambda>x. b_stripeSessionId x = obj_id ev) (bookings (fst (stripeWebhook e w rq)))
              = Some (b\<lparr>b_status := ''Failed''\<rparr>))
    \<and> (\<forall>b g gm. find (\<lambda>x. b_stripeSessionId x = obj_id ev) (bookings w) = Some b
          \<and> metaGet (obj_metadata ev) ''gameId'' = Some g \<and> g \<noteq> []
          \<and> find (\<lambda>x. g_id x = g) (games w) = Some gm
          \<longrightarrow> find (\<lambda>x. g_id x = g) (games (fst (stripeWebhook e w rq)))
              = Some (gm\<lparr>g_status := ''Open''\<rparr>))
    \<and> (\<forall>d s doc sl. metaGet (obj_metadata ev) ''timeSlotDocId'' = Some d \<and> d \<noteq> []
          \<and> metaGet (obj_metadata ev) ''slotId'' = Some s \<and> s \<noteq> []
          \<and> findById (timeslots w) d = Some doc \<and> slotById (slots doc) s = Some sl
          \<longrightarrow> slotAt (timeslots (fst (stripeWebhook e w rq))) d s
              = Some (sl\<lparr>slot_status := ''available'', bookedForSport := None\<rparr>))
    \<and> (\<forall>b sv doc sl.
          \<not> (truthy (metaGet (obj_metadata ev) ''timeSlotDocId'')
                \<and> truthy (metaGet (obj_metadata ev) ''slotId''))
          \<and> find (\<lambda>x. b_stripeSessionId x = obj_id ev) (bookings w) = Some b
          \<and> b_subVenueId b = Some sv \<and> sv \<noteq> []
          \<and> find (\<lambda>d. ts_subVenue d = sv \<and> ts_date d = toISODate e (b_startTime b)) (timeslots w)
              = Some doc
          \<and> find (sameTimes b) (slots doc) = Some sl
          \<longrightarrow> (\<exists>doc'. find (\<lambda>d. ts_subVenue d = sv \<and> ts_date d = toISODate e (b_startTime b))
                         (timeslots (fst (stripeWebhook e w rq))) = Some doc'
                \<and> find (sameTimes b) (slots doc')
                    = Some (sl\<lparr>slot_status := ''available'', bookedForSport := None\<rparr>)))"
proof -
  let ?found = "find (\<lambda>x. b_stripeSessionId x = obj_id ev) (bookings w)"
  have w': "fst (stripeWebhook e w rq) = releaseExpired e (expireBooking w ev) ev ?found"
    using assms by (simp add: stripeWebhook_def handleEvent_def onExpired_def)
  have bk: "find (\<lambda>x. b_stripeSessionId x = obj_id ev) (bookings (fst (stripeWebhook e w rq)))
      = Some (b\<lparr>b_status := ''Failed''\<rparr>)" if "?found = Some b" for b
    using that expired_booking_failed [OF that] by (simp add: w' expireBooking_def)
  have gm: "find (\<lambda>x. g_id x = g) (games (fst (stripeWebhook e w rq))) = Some (gm\<lparr>g_status := ''Open''\<rparr>)"
    if "?found = Some b" "metaGet (obj_metadata ev) ''gameId'' = Some g" "g \<noteq> []"
      "find (\<lambda>x. g_id x = g) (games w) = Some gm" for b g gm
    using that game_reopened [OF that(4)] by (simp add: w' expireBooking_def)
  have sl: "slotAt (timeslots (fst (stripeWebhook e w rq))) d s
      = Some (sl\<lparr>slot_status := ''available'', bookedForSport := None\<rparr>)"
    if "metaGet (obj_metadata ev) ''timeSlotDocId'' = Some d" "d \<noteq> []"
      "metaGet (obj_metadata ev) ''slotId'' = Some s" "s \<noteq> []"
      "findById (timeslots w) d = Some doc" "slotById (slots doc) s = Some sl" for d s doc sl
    using that slotAt_unlockSlot [OF that(5,6)] by (simp add: w' releaseExpired_def)
  have fb: "\<exists>doc'. find (\<lambda>d. ts_subVenue d = sv \<and> ts_date d = toISODate e (b_startTime b))
                         (timeslots (fst (stripeWebhook e w rq))) = Some doc'
                \<and> find (sameTimes b) (slots doc')
                    = Some (sl\<lparr>slot_status := ''available'', bookedForSport := None\<rparr>)"
    if "\<not> (truthy (metaGet (obj_metadata ev) ''timeSlotDocId'')
             \<and> truthy (metaGet (obj_metadata ev) ''slotId''))"
      "?found = Some b" "b_subVenueId b = Some sv" "sv \<noteq> []"
      "find (\<lambda>d. ts_subVenue d = sv \<and> ts_date d = toISODate e (b_startTime b)) (timeslots w) = Some doc"
      "find (sameTimes b) (slots doc) = Some sl" for b sv doc sl
  proof -
    have "timeslots (fst (stripeWebhook e w rq)) = fallbackRelease e b (timeslots w)"
      using that(1-4) by (auto simp: w' releaseExpired_def)
    then show ?thesis
      using fallbackRelease_slot [OF that(3,5,6)] by simp
  qed
  show ?thesis
    using bk gm sl fb by blast
qed

theorem expired_event_effects_witness:
  "find (\<lambda>x. b_stripeSessionId x = ''cs_1'')
      (bookings (fst (stripeWebhook (envHook expiredEvent) gameWorld hookReq)))
     = Some (gameBooking\<lparr>b_status := ''Failed''\<rparr>)
   \<and> find (\<lambda>x. g_id x = ''g1'') (games (fst (stripeWebhook (envHook expiredEvent) gameWorld hookReq)))
     = Some \<lparr>g_id = ''g1'', g_status = ''Open'', g_bookingStatus = ''NotBooked''\<rparr>
   \<and> slotAt (timeslots (fst (stripeWebhook (envHook expiredEvent) gameWorld hookReq))) ''d1'' ''s1''
     = Some slotA
   \<and> (\<exists>doc'. find (\<lambda>d. ts_subVenue d = ''sv1'' \<and> ts_date d = ''1970-01-01'')
         (timeslots (fst (stripeWebhook (envHook (expiredEvent\<lparr>obj_metadata := None\<rparr>)) gameWorld hookReq)))
         = Some doc'
       \<and> find (sameTimes gameBooking) (slots doc') = Some slotA)"
proof -
  let ?ev' = "expiredEvent\<lparr>obj_metadata := None\<rparr>"
  have 1: "constructEvent (envHook ev) (wh_body hookReq) (wh_signature hookReq)
      (webhookSecret (envHook ev)) = Inr ev" for ev
    by (simp add: envHook_def env0_def hookReq_def)
  have 2: "ev_type expiredEvent = ''checkout.session.expired''"
    and e2: "ev_type ?ev' = ''checkout.session.expired''"
    by (simp_all add: expiredEvent_def)
  have b: "find (\<lambda>x. b_stripeSessionId x = obj_id expiredEvent) (bookings gameWorld) = Some gameBooking"
    and b': "find (\<lambda>x. b_stripeSessionId x = obj_id ?ev') (bookings gameWorld) = Some gameBooking"
    by (simp_all add: gameWorld_def world1_def gameBooking_def bookingA_def expiredEvent_def)
  have g: "metaGet (obj_metadata expiredEvent) ''gameId'' = Some ''g1''"
    and d: "metaGet (obj_metadata expiredEvent) ''timeSlotDocId'' = Some ''d1''"
    and s: "metaGet (obj_metadata expiredEvent) ''slotId'' = Some ''s1''"
    and n: "metaGet (obj_metadata ?ev') ''timeSlotDocId'' = None"
    by (simp_all add: expiredEvent_def metaGet_def)
  have gm: "find (\<lambda>x. g_id x = ''g1'') (games gameWorld)
      = Some \<lparr>g_id = ''g1'', g_status = ''Full'', g_bookingStatus = ''NotBooked''\<rparr>"
    by (simp add: gameWorld_def world1_def)
  have doc: "findById (timeslots gameWorld) ''d1'' = Some docBooked"
    by (simp add: findById_def gameWorld_def world1_def docBooked_def)
  have sl: "slotById (slots docBooked) ''s1''
      = Some (slotA\<lparr>slot_status := ''booked'', bookedForSport := Some ''Cricket''\<rparr>)"
    by (simp add: slotById_def docBooked_def slotA_def)
  have sv: "b_subVenueId gameBooking = Some ''sv1''"
    by (simp add: gameBooking_def bookingA_def)
  have fdoc: "find (\<lambda>d. ts_subVenue d = ''sv1''
        \<and> ts_date d = toISODate (envHook ?ev') (b_startTime gameBooking)) (timeslots gameWorld)
      = Some docBooked"
    by (simp add: gameWorld_def world1_def docBooked_def envHook_def env0_def
        firstDayISODate_def gameBooking_def bookingA_def)
  have fsl: "find (sameTimes gameBooking) (slots docBooked)
      = Some (slotA\<lparr>slot_status := ''booked'', bookedForSport := Some ''Cricket''\<rparr>)"
    by (simp add: docBooked_def sameTimes_def gameBooking_def bookingA_def slotA_def)
  have iso: "toISODate (envHook ?ev') (b_startTime gameBooking) = ''1970-01-01''"
    by (simp add: envHook_def env0_def firstDayISODate_def gameBooking_def bookingA_def)
  note T = expired_event_effects [OF 1 2, of gameWorld]
  note T' = expired_event_effects [OF 1 e2, of gameWorld]
  have A: "find (\<lambda>x. b_stripeSessionId x = ''cs_1'')
      (bookings (fst (stripeWebhook (envHook expiredEvent) gameWorld hookReq)))
     = Some (gameBooking\<lparr>b_status := ''Failed''\<rparr>)"
    using T b by (simp add: expiredEvent_def)
  have B: "find (\<lambda>x. g_id x = ''g1'') (games (fst (stripeWebhook (envHook expiredEvent) gameWorld hookReq)))
     = Some \<lparr>g_id = ''g1'', g_status = ''Open'', g_bookingStatus = ''NotBooked''\<rparr>"
    using T b g gm by simp
  have C: "slotAt (timeslots (fst (stripeWebhook (envHook expiredEvent) gameWorld hookReq))) ''d1'' ''s1''
     = Some slotA"
    using T d s doc sl by (simp add: slotA_def)
  have D: "\<exists>doc'. find (\<lambda>d. ts_subVenue d = ''sv1'' \<and> ts_date d = ''1970-01-01'')
         (timeslots (fst (stripeWebhook (envHook ?ev') gameWorld hookReq))) = Some doc'
       \<and> find (sameTimes gameBooking) (slots doc') = Some slotA"
    using T' b' n sv fdoc fsl iso by (simp add: slotA_def)
  show ?thesis using A B C D by blast
qed

text \<open>
  C10. When the metadata of a verified \<open>checkout.session.expired\<close> event names both
  \<open>timeSlotDocId\<close> and \<open>slotId\<close>, the slot collection afterwards is the unconditional
  release of that slot, and the slot is \<open>available\<close> with \<open>bookedForSport\<close> cleared.
  Nothing is assumed of the bookings (none need match the session) nor of the status the
  slot had.
\<close>

theorem expired_release_unconditional:
  assumes "constructEvent e (wh_body rq) (wh_signature rq) (webhookSecret e) = Inr ev"
    and "ev_type ev = ''checkout.session.expired''"
    and "metaGet (obj_metadata ev) ''timeSlotDocId'' = Some d" and "d \<noteq> []"
    and "metaGet (obj_metadata ev) ''slotId'' = Some s" and "s \<noteq> []"
    and "findById (timeslots w) d = Some doc"
    and "slotById (slots doc) s = Some sl"
  shows "timeslots (fst (stripeWebhook e w rq)) = unlockSlot d s (timeslots w)
    \<and> slotAt (timeslots (fst (stripeWebhook e w rq))) d s
        = Some (sl\<lparr>slot_status := ''available'', bookedForSport := None\<rparr>)"
proof -
  have "timeslots (fst (stripeWebhook e w rq)) = unlockSlot d s (timeslots w)"
    using assms(1-6)
    by (simp add: stripeWebhook_def handleEvent_def onExpired_def releaseExpired_def truthy_def)
  then show ?thesis
    using slotAt_unlockSlot [OF assms(7,8)] by simp
qed

theorem expired_release_unconditional_witness:
  "slotAt (timeslots (fst (stripeWebhook (envHook expiredEvent) (world1\<lparr>bookings := []\<rparr>) hookReq)))
      ''d1'' ''s1'' = Some slotA
   \<and> slotAt (timeslots (world1\<lparr>bookings := []\<rparr>)) ''d1'' ''s1''
      = Some (slotA\<lparr>slot_status := ''booked'', bookedForSport := Some ''Cricket''\<rparr>)"
proof -
  let ?w = "world1\<lparr>bookings := []\<rparr>"
  have 1: "constructEvent (envHook expiredEvent) (wh_body hookReq) (wh_signature hookReq)
      (webhookSecret (envHook expiredEvent)) = Inr expiredEvent"
    by (simp add: envHook_def env0_def hookReq_def)
  have 2: "ev_type expiredEvent = ''checkout.session.expired''"
    by (simp add: expiredEvent_def)
  have 3: "metaGet (obj_metadata expiredEvent) ''timeSlotDocId'' = Some ''d1''"
    by (simp add: expiredEvent_def metaGet_def)
  have 4: "metaGet (obj_metadata expiredEvent) ''slotId'' = Some ''s1''"
    by (simp add: expiredEvent_def metaGet_def)
  have 5: "findById (timeslots ?w) ''d1'' = Some docBooked"
    by (simp add: findById_def world1_def docBooked_def)
  have 6: "slotById (slots docBooked) ''s1''
      = Some (slotA\<lparr>slot_status := ''booked'', bookedForSport := Some ''Cricket''\<rparr>)"
    by (simp add: slotById_def docBooked_def slotA_def)
  have "''d1'' \<noteq> []" and "''s1'' \<noteq> []" by simp_all
  from expired_release_unconditional [OF 1 2 3 this(1) 4 this(2) 5 6, THEN conjunct2]
  have "slotAt (timeslots (fst (stripeWebhook (envHook expiredEvent) ?w hookReq))) ''d1'' ''s1''
      = Some slotA"
    by (simp add: slotA_def)
  moreover have "slotAt (timeslots ?w) ''d1'' ''s1''
      = Some (slotA\<lparr>slot_status := ''booked'', bookedForSport := Some ''Cricket''\<rparr>)"
    using 5 6 by (simp add: slotAt_def)
  ultimately show ?thesis by simp
qed

section \<open>Paid bookings\<close>

text \<open>
  C4, as stated, fails: the \<open>checkout.session.expired\<close> branch sets the booking of the
  session to Failed whatever its status was. Here the booking is Paid under session
  \<open>cs_1\<close>, and the expired event of \<open>cs_1\<close> leaves it Failed.
\<close>

theorem paid_booking_expired_counterexample:
  "b_status (bookings paidWorld ! 0) = ''Paid''
   \<and> b_stripeSessionId (bookings paidWorld ! 0) = obj_id expiredEvent
   \<and> b_status (bookings (fst (stripeWebhook (envHook expiredEvent) paidWorld hookReq)) ! 0) = ''Failed''"
  by (simp add: paidWorld_def world1_def world0_def bookingA_def expiredEvent_def envHook_def
      env0_def hookReq_def stripeWebhook_def handleEvent_def onExpired_def expireBooking_def
      releaseExpired_def)

text \<open>
  C4, amended. \<open>retryPayment\<close> rejects a Paid booking with 400 "Booking is already paid"
  and leaves the world as it was. A webhook request leaves a Paid booking Paid unless it
  carries a verified \<open>checkout.session.expired\<close> event for the session id stored on
  that booking; a request whose signature fails changes nothing.
\<close>

theorem paid_booking_terminal:
  "(q_bookingId q \<noteq> []
      \<and> find (\<lambda>x. b_id x = q_bookingId q \<and> b_user x = q_userId q) (bookings w) = Some b
      \<and> b_status b = ''Paid''
      \<longrightarrow> retryPayment e w q = (w, Inl (AppError ''Booking is already paid'' 400)))
   \<and> (constructEvent e (wh_body rq) (wh_signature rq) (webhookSecret e) = Inr ev
      \<and> i < length (bookings w) \<and> b_status (bookings w ! i) = ''Paid''
      \<and> (ev_type ev = ''checkout.session.expired'' \<longrightarrow> b_stripeSessionId (bookings w ! i) \<noteq> obj_id ev)
      \<longrightarrow> length (bookings (fst (stripeWebhook e w rq))) = length (bookings w)
        \<and> b_status (bookings (fst (stripeWebhook e w rq)) ! i) = ''Paid'')
   \<and> (\<forall>msg. constructEvent e (wh_body rq) (wh_signature rq) (webhookSecret e) = Inl msg
      \<longrightarrow> fst (stripeWebhook e w rq) = w)"
proof -
  have retry: "retryPayment e w q = (w, Inl (AppError ''Booking is already paid'' 400))"
    if "q_bookingId q \<noteq> []"
      "find (\<lambda>x. b_id x = q_bookingId q \<and> b_user x = q_userId q) (bookings w) = Some b"
      "b_status b = ''Paid''"
    using that by (simp add: retryPayment_def)
  have hook: "length (bookings (fst (stripeWebhook e w rq))) = length (bookings w)
        \<and> b_status (bookings (fst (stripeWebhook e w rq)) ! i) = ''Paid''"
    if v: "constructEvent e (wh_body rq) (wh_signature rq) (webhookSecret e) = Inr ev"
      and i: "i < length (bookings w)" and p: "b_status (bookings w ! i) = ''Paid''"
      and x: "ev_type ev = ''checkout.session.expired'' \<longrightarrow> b_stripeSessionId (bookings w ! i) \<noteq> obj_id ev"
  proof -
    have w': "fst (stripeWebhook e w rq) = handleEvent e w ev"
      using v by (simp add: stripeWebhook_def)
    show ?thesis
    proof (cases "ev_type ev = ''checkout.session.completed''")
      case True
      then show ?thesis
        using bookings_onCompleted_nth [OF i p] by (simp add: w' handleEvent_def)
    next
      case False
      show ?thesis
      proof (cases "ev_type ev = ''checkout.session.expired''")
        case True
        with x have "b_stripeSessionId (bookings w ! i) \<noteq> obj_id ev" by simp
        from bookings_onExpired_nth [OF i this] True False p show ?thesis
          by (simp add: w' handleEvent_def)
      next
        case other: False
        with False i p show ?thesis by (simp add: w' handleEvent_def)
      qed
    qed
  qed
  have bad: "fst (stripeWebhook e w rq) = w"
    if "constructEvent e (wh_body rq) (wh_signature rq) (webhookSecret e) = Inl msg" for msg
    using that by (simp add: stripeWebhook_def)
  show ?thesis using retry hook bad by blast
qed

theorem paid_booking_terminal_witness:
  "retryPayment env0 paidWorld retryReq = (paidWorld, Inl (AppError ''Booking is already paid'' 400))
   \<and> b_status (bookings paidWorld ! 0) = ''Paid''
   \<and> b_status (bookings (fst (stripeWebhook (envHook completedEvent) paidWorld hookReq)) ! 0) = ''Paid''
   \<and> b_status (bookings (fst (stripeWebhook (envHook (expiredEvent\<lparr>obj_id := ''cs_0''\<rparr>)) paidWorld hookReq)) ! 0)
       = ''Paid''"
proof -
  have q: "q_bookingId retryReq \<noteq> []" by (simp add: retryReq_def)
  have f: "find (\<lambda>x. b_id x = q_bookingId retryReq \<and> b_user x = q_userId retryReq) (bookings paidWorld)
      = Some (bookingA\<lparr>b_status := ''Paid'', b_stripePaymentIntentId := Some ''pi_1''\<rparr>)"
    by (simp add: retryReq_def paidWorld_def world1_def bookingA_def)
  have v: "constructEvent (envHook ev) (wh_body hookReq) (wh_signature hookReq)
      (webhookSecret (envHook ev)) = Inr ev" for ev
    by (simp add: envHook_def env0_def hookReq_def)
  have i: "0 < length (bookings paidWorld)" and p: "b_status (bookings paidWorld ! 0) = ''Paid''"
    by (simp_all add: paidWorld_def world1_def)
  have c: "ev_type completedEvent \<noteq> ''checkout.session.expired''"
    by (simp add: completedEvent_def)
  have x: "b_stripeSessionId (bookings paidWorld ! 0) \<noteq> obj_id (expiredEvent\<lparr>obj_id := ''cs_0''\<rparr>)"
    by (simp add: paidWorld_def world1_def bookingA_def)
  have A: "retryPayment env0 paidWorld retryReq
      = (paidWorld, Inl (AppError ''Booking is already paid'' 400))"
    using paid_booking_terminal [where q = retryReq and w = paidWorld and e = env0
        and b = "bookingA\<lparr>b_status := ''Paid'', b_stripePaymentIntentId := Some ''pi_1''\<rparr>"] q f
    by simp
  have B: "b_status (bookings (fst (stripeWebhook (envHook completedEvent) paidWorld hookReq)) ! 0) = ''Paid''"
    using paid_booking_terminal [where w = paidWorld and e = "envHook completedEvent"
        and rq = hookReq and ev = completedEvent and i = 0]
      v i p c by simp
  have C: "b_status (bookings (fst (stripeWebhook (envHook (expiredEvent\<lparr>obj_id := ''cs_0''\<rparr>))
      paidWorld hookReq)) ! 0) = ''Paid''"
    using paid_booking_terminal [where w = paidWorld
        and e = "envHook (expiredEvent\<lparr>obj_id := ''cs_0''\<rparr>)" and rq = hookReq
        and ev = "expiredEvent\<lparr>obj_id := ''cs_0''\<rparr>" and i = 0] v i p x by simp
  show ?thesis using A B C p by simp
qed

section \<open>A successful direct booking\<close>




section \<open>The sessions of the two flows\<close>

text \<open>
  A direct booking creates at most one session, with the parameters of
  \<open>directSessionParams\<close>: an expiry 30 minutes after the current second, and a metadata
  bag that names the document and the slot.
\<close>

lemma direct_session_logged:
  "sessions (fst (createDirectBooking e w r)) = sessions w
   \<or> (\<exists>p s. sessions (fst (createDirectBooking e w r))
              = sessions w @ [(directSessionParams e r (newObjectId e) p, s)])"
  by (auto simp: createDirectBooking_def lockAndBook_def tryBook_def persistBooking_def Let_def
      split: sum.splits prod.splits option.splits)

lemma direct_session_params:
  "sp_expires_at (directSessionParams e r i p) = Some (now e div 1000 + 30 * 60)
   \<and> map_of (sp_metadata (directSessionParams e r i p)) ''timeSlotDocId'' = Some (r_timeSlotDocId r)
   \<and> map_of (sp_metadata (directSessionParams e r i p)) ''slotId'' = Some (r_slotId r)"
  by (simp add: directSessionParams_def)

text \<open>
  A retry creates at most one session, with the parameters of \<open>retrySessionParams\<close>:
  no expiry, and a metadata bag without the document and the slot.
\<close>

lemma retry_session_logged:
  "sessions (fst (retryPayment e w q)) = sessions w
   \<or> (\<exists>b s. sessions (fst (retryPayment e w q))
              = sessions w @ [(retrySessionParams e b (q_userId q), s)])"
  by (auto simp: retryPayment_def retryGuarded_def tryRetry_def
      split: sum.splits prod.splits option.splits if_splits)

lemma retry_session_params:
  "sp_expires_at (retrySessionParams e b u) = None
   \<and> map_of (sp_metadata (retrySessionParams e b u)) ''timeSlotDocId'' = None
   \<and> map_of (sp_metadata (retrySessionParams e b u)) ''slotId'' = None"
  by (simp add: retrySessionParams_def)

text \<open>
  C6. The claim is that the sessions of both flows carry the slot's document id and slot
  id in their metadata. The retry flow does not do so: the session of this successful retry
  carries \<open>type\<close>, \<open>userId\<close> and \<open>bookingId\<close> only.
\<close>

theorem retry_session_metadata:
  "snd (retryPayment env0 failedWorld retryReq) = Inr (200, RetryUrl ''http://pay'' ''bk1'')
   \<and> map (\<lambda>ps. sp_metadata (fst ps)) (sessions (fst (retryPayment env0 failedWorld retryReq)))
     = [[(''type'', ''retry''), (''userId'', ''uA''), (''bookingId'', ''bk1'')]]"
  by (simp add: sample_defs handler_defs)

text \<open>
  C7. The claim is that the sessions of both flows expire 30 minutes after their creation.
  The retry flow passes no \<open>expires_at\<close>: the session of this successful retry has none.
\<close>

theorem retry_session_no_expiry:
  "snd (retryPayment env0 failedWorld retryReq) = Inr (200, RetryUrl ''http://pay'' ''bk1'')
   \<and> map (\<lambda>ps. sp_expires_at (fst ps)) (sessions (fst (retryPayment env0 failedWorld retryReq)))
     = [None]"
  by (simp add: sample_defs handler_defs)

section \<open>Ownership of the lock in the retry flow\<close>

text \<open>
  The flag \<open>didLock\<close> is set only when the conditional update of this call matched a
  document, and without the flag the \<open>catch\<close> block leaves the slots alone.
\<close>

lemma retryLock_flag:
  "retryLock w b ts sl = Inr (ts', True)
   \<Longrightarrow> fst (lockSlot (ts_id ts) (slot_id sl) (b_sport b) (timeslots w)) = ts'
     \<and> snd (lockSlot (ts_id ts) (slot_id sl) (b_sport b) (timeslots w)) \<noteq> None"
  by (auto simp: retryLock_def split: if_splits prod.splits option.splits)

lemma retryLock_no_flag:
  "retryLock w b ts sl = Inr (ts', False) \<Longrightarrow> ts' = timeslots w"
  by (auto simp: retryLock_def split: if_splits prod.splits option.splits)

lemma timeslots_tryRetry [simp]: "timeslots (fst (tryRetry e w q b)) = timeslots w"
  by (simp add: tryRetry_def split: sum.splits)

lemma retryGuarded_no_flag:
  "timeslots (fst (retryGuarded e w q b ts sl False)) = timeslots w"
proof (cases "tryRetry e w q b")
  case (Pair w' res)
  with timeslots_tryRetry [of e w q b] show ?thesis
    by (cases res) (simp_all add: retryGuarded_def)
qed

text \<open>
  C3. The claim is that a retry never reverts to \<open>available\<close> a slot it did not itself take
  from \<open>available\<close> to \<open>booked\<close>. Here slot \<open>s1\<close> is booked for another sport, \<open>s2\<close>
  of the same document is available, and the retried booking is Failed. The conditional
  update matches the document (\<open>s1\<close> has the id, \<open>s2\<close> is available), \<open>didLock\<close> is set,
  the payment session fails, and the \<open>catch\<close> block releases \<open>s1\<close>.
\<close>

theorem retry_releases_foreign_slot:
  "slotAt (timeslots foreignWorld) ''d1'' ''s1''
     = Some (slotA\<lparr>slot_status := ''booked'', bookedForSport := Some ''Tennis''\<rparr>)
   \<and> snd (retryPayment envFail foreignWorld retryReq) = Inl (Thrown ''card network down'')
   \<and> slotAt (timeslots (fst (retryPayment envFail foreignWorld retryReq))) ''d1'' ''s1''
     = Some slotA"
  by (simp add: sample_defs handler_defs)

end
